theory Spec2Isabelle
  imports Main
begin

section \<open>Common vocabulary of the two monitoring programs\<close>

text \<open>
  The repository holds two near-duplicate monitors: the crypto one
  (\<^verbatim>\<open>Transaction-Analysis-Tool/Crypto-AML-Analysis-Tool.py\<close>) and the fiat one
  (\<^verbatim>\<open>Transaction-Monitoring/Transaction-Monitoring-System.py\<close>). Both work on an SQLite
  connection and write to the \<^verbatim>\<open>logging\<close> module.

  Modelling decisions that hold for the whole development:
  \<^item> a table is the list of its rows, a row a record of its columns; columns are not NULL;
  \<^item> amounts are integers of a fixed unit; floating point is not modelled;
  \<^item> the \<^verbatim>\<open>transaction_date\<close> of a row is the instant it denotes, in seconds since
    1970-01-01 00:00:00. That is what pandas holds after \<^verbatim>\<open>parse_dates\<close> and what the date
    functions of the fiat query compute with. The archivers compare the stored cell itself
    with a bound text; for them the cell is given by a storage format, see below;
  \<^item> an exception is a value of \<open>exn\<close>; a function that can raise returns \<open>exn + 'a\<close>
    or, when it returns nothing, \<open>exn option\<close>;
  \<^item> the log is the list of the records written so far, oldest first; a record is a
    constructor of \<open>msg\<close> holding the values the source formats into its text;
  \<^item> a storage statement fails when the record \<open>faults\<close> says so; the source never
    decides this itself;
  \<^item> the tables a statement names exist, with the columns it uses. (The two init scripts
    of the repository create neither archive table, and no \<^verbatim>\<open>processed\<close> column for
    \<^verbatim>\<open>crypto_transactions\<close>; on such a database the statement raises, which is a fault.)
  Names are the source's. Where both programs use one name, the fiat one carries the
  suffix \<open>_f\<close> or \<open>_fiat\<close>.
\<close>

datatype exn = AttributeError | KeyError | TypeError | NetworkXError | DatabaseError

datatype level = INFO | WARNING | ERROR

text \<open>A value of a pandas cell or of a networkx attribute dictionary.\<close>

datatype pyval = Str string | Num int | NoneVal

datatype 'i msg =
    NoNewTransactions
  | InvalidValue int 'i
  | DetectedFrequent nat
  | SkippingComplex
  | DetectedComplex nat
  | AlertLogged 'i string int
  | AlertLoggedFiat 'i string
  | AlertFailed 'i exn
  | MarkedProcessed "'i list"
  | MarkFailed exn
  | ErrorAnalyzing exn
  | ErrorProcessing exn
  | Archived int
  | ErrorArchiving exn

fun level_of :: "'i msg \<Rightarrow> level" where
  "level_of NoNewTransactions = INFO"
| "level_of (InvalidValue v i) = WARNING"
| "level_of (DetectedFrequent n) = INFO"
| "level_of SkippingComplex = INFO"
| "level_of (DetectedComplex n) = INFO"
| "level_of (AlertLogged i t s) = INFO"
| "level_of (AlertLoggedFiat i t) = INFO"
| "level_of (AlertFailed i e) = ERROR"
| "level_of (MarkedProcessed ids) = INFO"
| "level_of (MarkFailed e) = ERROR"
| "level_of (ErrorAnalyzing e) = ERROR"
| "level_of (ErrorProcessing e) = ERROR"
| "level_of (Archived d) = INFO"
| "level_of (ErrorArchiving e) = ERROR"

text \<open>
  Which storage statements raise during one call. \<open>insert_fails n\<close> is about the
  \<open>n\<close>-th alert \<^verbatim>\<open>INSERT\<close> of a pass, counted from 0.
\<close>

record faults =
  select_fails :: bool
  query_fails :: bool
  insert_fails :: "nat \<Rightarrow> bool"
  update_fails :: bool
  archive_insert_fails :: bool
  archive_delete_fails :: bool

definition no_faults :: faults where
  "no_faults = \<lparr>select_fails = False, query_fails = False, insert_fails = (\<lambda>n. False),
     update_fails = False, archive_insert_fails = False, archive_delete_fails = False\<rparr>"

definition seconds_per_day :: int where
  "seconds_per_day = 86400"

subsection \<open>Timestamps as SQLite compares them\<close>

text \<open>
  The archivers run \<^verbatim>\<open>... WHERE transaction_date < ?\<close> with a Python \<^verbatim>\<open>datetime\<close> as
  parameter. The \<^verbatim>\<open>sqlite3\<close> module binds a datetime as the text of \<^verbatim>\<open>isoformat\<close> with a
  space as separator, and
  SQLite compares the stored cell with that text: an integer cell is less than any text,
  two texts compare byte by byte. The column has numeric affinity (\<^verbatim>\<open>TIMESTAMP\<close>), which
  leaves a text alone that is not a number, as a date text is. Cells of type real are not
  modelled.
\<close>

datatype cell = IntegerCell int | TextCell string

fun text_lt :: "string \<Rightarrow> string \<Rightarrow> bool" where
  "text_lt [] [] = False"
| "text_lt [] (y # ys) = True"
| "text_lt (x # xs) [] = False"
| "text_lt (x # xs) (y # ys) =
     ((of_char x :: nat) < of_char y \<or> (x = y \<and> text_lt xs ys))"

fun sqlite_lt :: "cell \<Rightarrow> cell \<Rightarrow> bool" where
  "sqlite_lt (IntegerCell a) (IntegerCell b) = (a < b)"
| "sqlite_lt (IntegerCell a) (TextCell t) = True"
| "sqlite_lt (TextCell s) (IntegerCell b) = False"
| "sqlite_lt (TextCell s) (TextCell t) = text_lt s t"

text \<open>
  A Python \<^verbatim>\<open>datetime\<close> without time zone: the instant in whole seconds and the
  microseconds. Python's range is the years 1 to 9999.
\<close>

record datetime =
  epoch_seconds :: int
  microsecond :: int

text \<open>\<open>decimal k n\<close>: the last \<open>k\<close> decimal digits of \<open>n\<close>, with leading zeros.\<close>

fun decimal :: "nat \<Rightarrow> int \<Rightarrow> string" where
  "decimal 0 n = []"
| "decimal (Suc k) n = decimal k (n div 10) @ [char_of (48 + n mod 10)]"

text \<open>Year, month and day of a day number (days since 1970-01-01), Gregorian calendar.\<close>

definition civil_from_days :: "int \<Rightarrow> int \<times> int \<times> int" where
  "civil_from_days days =
     (let z = days + 719468;
          era = z div 146097;
          doe = z - era * 146097;
          yoe = (doe - doe div 1460 + doe div 36524 - doe div 146096) div 365;
          doy = doe - (365 * yoe + yoe div 4 - yoe div 100);
          mp = (5 * doy + 2) div 153;
          d = doy - (153 * mp + 2) div 5 + 1;
          m = (if mp < 10 then mp + 3 else mp - 9);
          y = yoe + era * 400 + (if m \<le> 2 then 1 else 0)
      in (y, m, d))"

text \<open>
  \<^verbatim>\<open>datetime.isoformat(sep)\<close>: \<^verbatim>\<open>YYYY-MM-DD\<close>, the separator, \<^verbatim>\<open>HH:MM:SS\<close>, and the six
  digits of the microseconds after a dot when they are not zero.
\<close>

definition isoformat :: "string \<Rightarrow> datetime \<Rightarrow> string" where
  "isoformat sep dt =
     (let (y, m, d) = civil_from_days (epoch_seconds dt div seconds_per_day);
          s = epoch_seconds dt mod seconds_per_day
      in decimal 4 y @ ''-'' @ decimal 2 m @ ''-'' @ decimal 2 d @ sep @
         decimal 2 (s div 3600) @ '':'' @ decimal 2 (s mod 3600 div 60) @ '':'' @
         decimal 2 (s mod 60) @
         (if microsecond dt = 0 then [] else ''.'' @ decimal 6 (microsecond dt)))"

definition adapt_datetime :: "datetime \<Rightarrow> string" where
  "adapt_datetime val = isoformat '' '' val"

text \<open>
  How a table stores the instant of a row is decided by whoever writes the table, not by
  the monitors: a storage format maps the instant to the cell. Three formats: the text
  \<^verbatim>\<open>sqlite3\<close> itself writes for a datetime (separator a space), the ISO text with the
  separator \<^verbatim>\<open>T\<close>, and the integer of the epoch seconds.
\<close>

definition iso_text :: "string \<Rightarrow> int \<Rightarrow> cell" where
  "iso_text sep d = TextCell (isoformat sep \<lparr>epoch_seconds = d, microsecond = 0\<rparr>)"

definition epoch_integer :: "int \<Rightarrow> cell" where
  "epoch_integer d = IntegerCell d"

text \<open>\<^verbatim>\<open>transaction_date < ?\<close> for a row of instant \<open>d\<close> and the bound datetime.\<close>

definition before_bound :: "(int \<Rightarrow> cell) \<Rightarrow> datetime \<Rightarrow> int \<Rightarrow> bool" where
  "before_bound stored bound d = sqlite_lt (stored d) (TextCell (adapt_datetime bound))"

text \<open>\<^verbatim>\<open>now - datetime.timedelta(days=n)\<close>\<close>

definition minus_days :: "datetime \<Rightarrow> int \<Rightarrow> datetime" where
  "minus_days now n = now\<lparr>epoch_seconds := epoch_seconds now - n * seconds_per_day\<rparr>"

section \<open>The crypto monitor\<close>

subsection \<open>Configuration (config.py)\<close>

definition THRESHOLD_VALUE_USD :: int where
  "THRESHOLD_VALUE_USD = 10000"

definition HIGH_RISK_ADDRESSES :: "string list" where
  "HIGH_RISK_ADDRESSES =
     [''1DkqkW9i9szEdSa7ZrM4q2eA6kWE2w2DSm'', ''1HB5XMLmzFVj8ALj6mfBsbifRoD4miY36v'']"

definition FREQUENT_TXN_LIMIT :: nat where
  "FREQUENT_TXN_LIMIT = 5"

definition GRAPH_ANALYSIS_LIMIT :: nat where
  "GRAPH_ANALYSIS_LIMIT = 100"

definition ARCHIVE_AGE_DAYS :: int where
  "ARCHIVE_AGE_DAYS = 30"

subsection \<open>Tables\<close>

text \<open>
  A row of \<^verbatim>\<open>crypto_transactions\<close>, with the \<^verbatim>\<open>processed\<close> column the queries of the
  program read and write.
\<close>

record ctxn =
  transaction_id :: string
  from_address :: string
  to_address :: string
  value_usd :: int
  transaction_fee :: int
  transaction_date :: int
  blockchain :: string
  processed :: bool

text \<open>A row of \<^verbatim>\<open>crypto_alerts\<close>: transaction id, alert type, risk score.\<close>

type_synonym calert = "pyval \<times> string \<times> int"

record cworld =
  crypto_transactions :: "ctxn list"
  crypto_alerts :: "calert list"
  crypto_transactions_archive :: "ctxn list"
  logging :: "pyval msg list"

definition log_record :: "pyval msg \<Rightarrow> cworld \<Rightarrow> cworld" where
  "log_record m w = w\<lparr>logging := logging w @ [m]\<rparr>"

definition log_records :: "pyval msg list \<Rightarrow> cworld \<Rightarrow> cworld" where
  "log_records ms w = w\<lparr>logging := logging w @ ms\<rparr>"

text \<open>
  A pandas frame of transaction rows: its column names and its rows. \<^verbatim>\<open>pd.read_sql\<close>
  gives a frame with every column of the table; \<^verbatim>\<open>pd.DataFrame()\<close> has no column and
  no row.
\<close>

datatype frame = DataFrame (columns: "string list") (rows: "ctxn list")

definition crypto_columns :: "string list" where
  "crypto_columns = [''transaction_id'', ''from_address'', ''to_address'', ''value_usd'',
     ''transaction_fee'', ''transaction_date'', ''blockchain'', ''processed'']"

definition read_frame :: "ctxn list \<Rightarrow> frame" where
  "read_frame txs = DataFrame crypto_columns txs"

definition empty_frame :: frame where
  "empty_frame = DataFrame [] []"

subsection \<open>The row filters of analyze_transactions\<close>

text \<open>
  \<^verbatim>\<open>transactions[transactions['value_usd'] > THRESHOLD_VALUE_USD]\<close> and the
  \<^verbatim>\<open>isin(HIGH_RISK_ADDRESSES)\<close> filter, named after the variables they are assigned to.
\<close>

definition flagged_threshold :: "ctxn list \<Rightarrow> ctxn list" where
  "flagged_threshold transactions =
     filter (\<lambda>r. value_usd r > THRESHOLD_VALUE_USD) transactions"

definition flagged_high_risk :: "ctxn list \<Rightarrow> ctxn list" where
  "flagged_high_risk transactions =
     filter (\<lambda>r. from_address r \<in> set HIGH_RISK_ADDRESSES \<or> to_address r \<in> set HIGH_RISK_ADDRESSES)
       transactions"


subsection \<open>validate_transaction_data\<close>

text \<open>
  One warning per row whose value is not positive; the rows stay in the batch. (The
  second warning of the source is about NULL cells, which the row type excludes.)
\<close>

definition validate_transaction_data :: "ctxn list \<Rightarrow> cworld \<Rightarrow> cworld" where
  "validate_transaction_data transactions w =
     log_records
       (map (\<lambda>row. InvalidValue (value_usd row) (Str (transaction_id row)))
          (filter (\<lambda>row. value_usd row \<le> 0) transactions)) w"

subsection \<open>detect_frequent_transactions\<close>

text \<open>
  \<^verbatim>\<open>transactions.groupby('from_address').apply(lambda x: ...)\<close> calls the lambda on the
  rows of each sender. Detectors write to the log only; they return the records they
  wrote together with their result.
\<close>

type_synonym 'a logged = "pyval msg list \<times> (exn + 'a)"

definition groupby_from_address :: "ctxn list \<Rightarrow> (string \<times> ctxn list) list" where
  "groupby_from_address transactions =
     map (\<lambda>k. (k, filter (\<lambda>r. from_address r = k) transactions))
       (remdups (map from_address transactions))"

text \<open>
  The lambda is
  \<^verbatim>\<open>x.set_index('transaction_date').sort_index().diff().transaction_date < pd.Timedelta(minutes=10)\<close>.
  \<^item> \<^verbatim>\<open>set_index('transaction_date')\<close> moves that column into the index: the frame keeps
    the other columns only.
  \<^item> \<^verbatim>\<open>diff()\<close> subtracts from every remaining column the same column one row up. The
    text columns (transaction id, addresses, blockchain) are among them, so with two rows
    or more it subtracts a string from a string: TypeError.
  \<^item> \<^verbatim>\<open>.transaction_date\<close> is an attribute lookup of a column; the frame has no such
    column any more: AttributeError.
  So the lambda raises for every group. The branch that returns is the one a frame still
  holding the column would take for a single row (its difference is missing, the
  comparison False).

  pandas visits the groups in key order, the model in order of appearance. The call on the
  first group raises either way, so with several senders only the kind of the exception
  can differ; the caller catches \<^verbatim>\<open>Exception\<close>.
\<close>

definition frequent_lambda :: "ctxn list \<Rightarrow> exn + bool list" where
  "frequent_lambda x =
     (let indexed = remove1 ''transaction_date'' crypto_columns in
      if 2 \<le> length x then Inl TypeError
      else if ''transaction_date'' \<in> set indexed then Inr (map (\<lambda>r. False) x)
      else Inl AttributeError)"

fun apply_groups :: "(string \<times> ctxn list) list \<Rightarrow> exn + (string \<times> bool list) list" where
  "apply_groups [] = Inr []"
| "apply_groups ((k, x) # gs) =
     (case frequent_lambda x of
        Inl e \<Rightarrow> Inl e
      | Inr bs \<Rightarrow>
          (case apply_groups gs of
             Inl e \<Rightarrow> Inl e
           | Inr rest \<Rightarrow> Inr ((k, bs) # rest)))"

text \<open>
  \<^verbatim>\<open>.reset_index().query('transaction_date == True')\<close> keeps the entries whose comparison
  is True; a row of the result holds the sender, not a transaction id.
\<close>

definition detect_frequent_transactions :: "ctxn list \<Rightarrow> string list logged" where
  "detect_frequent_transactions transactions =
     (case apply_groups (groupby_from_address transactions) of
        Inl e \<Rightarrow> ([], Inl e)
      | Inr res \<Rightarrow>
          (let flagged_frequent = concat (map (\<lambda>(k, bs). map (\<lambda>b. k) (filter id bs)) res)
           in ([DetectedFrequent (length flagged_frequent)], Inr flagged_frequent)))"

subsection \<open>detect_complex_patterns\<close>

text \<open>
  A networkx \<^verbatim>\<open>Graph\<close>: undirected, one edge per pair of nodes, an attribute dictionary
  on each edge. Nodes and edges are kept in insertion order.
\<close>

type_synonym attrs = "(string \<times> pyval) list"

record graph =
  nodes :: "string list"
  edges :: "(string \<times> string \<times> attrs) list"

definition empty_graph :: graph where
  "empty_graph = \<lparr>nodes = [], edges = []\<rparr>"

definition dict_get :: "attrs \<Rightarrow> string \<Rightarrow> pyval" where
  "dict_get d k = (case map_of d k of None \<Rightarrow> NoneVal | Some v \<Rightarrow> v)"

definition dict_update :: "attrs \<Rightarrow> attrs \<Rightarrow> attrs" where
  "dict_update old new = new @ filter (\<lambda>kv. fst kv \<notin> set (map fst new)) old"

definition add_node :: "string \<Rightarrow> graph \<Rightarrow> graph" where
  "add_node v G = (if v \<in> set (nodes G) then G else G\<lparr>nodes := nodes G @ [v]\<rparr>)"

definition same_edge :: "string \<Rightarrow> string \<Rightarrow> string \<times> string \<times> attrs \<Rightarrow> bool" where
  "same_edge s t e =
     ((fst e = s \<and> fst (snd e) = t) \<or> (fst e = t \<and> fst (snd e) = s))"

text \<open>\<^verbatim>\<open>g.add_edge(s, t); g[s][t].update(zip(attr_col_headings, attrs))\<close>\<close>

definition add_edge :: "string \<Rightarrow> string \<Rightarrow> attrs \<Rightarrow> graph \<Rightarrow> graph" where
  "add_edge s t a G =
     (let G1 = add_node t (add_node s G) in
      if list_ex (same_edge s t) (edges G1)
      then G1\<lparr>edges := map (\<lambda>e. if same_edge s t e
                                  then (fst e, fst (snd e), dict_update (snd (snd e)) a)
                                  else e) (edges G1)\<rparr>
      else G1\<lparr>edges := edges G1 @ [(s, t, a)]\<rparr>)"

text \<open>
  \<^verbatim>\<open>nx.from_pandas_edgelist(transactions, 'from_address', 'to_address', ['value_usd'])\<close>:
  the edge attributes are the listed columns, here \<^verbatim>\<open>value_usd\<close> alone. A frame without
  the attribute column makes networkx raise NetworkXError, one without the source or
  target column KeyError.
\<close>

definition from_pandas_edgelist :: "frame \<Rightarrow> exn + graph" where
  "from_pandas_edgelist df =
     (if ''value_usd'' \<in> set (columns df) then
        (if ''from_address'' \<in> set (columns df) \<and> ''to_address'' \<in> set (columns df) then
           Inr (foldl (\<lambda>g r. add_edge (from_address r) (to_address r)
                                [(''value_usd'', Num (value_usd r))] g)
                  empty_graph (rows df))
         else Inl KeyError)
      else Inl NetworkXError)"

definition neighbours :: "graph \<Rightarrow> string \<Rightarrow> string list" where
  "neighbours G v =
     concat (map (\<lambda>e. (if fst e = v then [fst (snd e)] else []) @
                       (if fst (snd e) = v then [fst e] else [])) (edges G))"

definition add_new :: "string list \<Rightarrow> string \<Rightarrow> string list" where
  "add_new acc v = (if v \<in> set acc then acc else acc @ [v])"

text \<open>
  Breadth-first search, one layer per round. A round that finds nothing new changes
  nothing, and each other round adds a node, so as many rounds as the graph has nodes
  reach the whole component.
\<close>

fun bfs :: "graph \<Rightarrow> nat \<Rightarrow> string list \<Rightarrow> string list" where
  "bfs G 0 seen = seen"
| "bfs G (Suc n) seen = bfs G n (foldl add_new seen (concat (map (neighbours G) seen)))"

definition component :: "graph \<Rightarrow> string \<Rightarrow> string list" where
  "component G v = bfs G (length (nodes G)) [v]"

fun components_of :: "graph \<Rightarrow> string list \<Rightarrow> string list list \<Rightarrow> string list list" where
  "components_of G [] acc = acc"
| "components_of G (v # vs) acc =
     (if list_ex (\<lambda>c. v \<in> set c) acc then components_of G vs acc
      else components_of G vs (acc @ [component G v]))"

definition connected_components :: "graph \<Rightarrow> string list list" where
  "connected_components G = components_of G (nodes G) []"

text \<open>
  \<^verbatim>\<open>G.subgraph(cluster).edges(data=True)\<close>: the edges between nodes of the cluster, each
  once, with its attributes. (networkx lists them node by node; the model in insertion
  order. The attributes are the same.)
\<close>

definition subgraph_edges :: "graph \<Rightarrow> string list \<Rightarrow> (string \<times> string \<times> attrs) list" where
  "subgraph_edges G cluster =
     filter (\<lambda>e. fst e \<in> set cluster \<and> fst (snd e) \<in> set cluster) (edges G)"

text \<open>
  What the detector returns: \<^verbatim>\<open>pd.DataFrame()\<close> (no column) when it skips, else a frame
  with the columns \<^verbatim>\<open>from_address\<close>, \<^verbatim>\<open>to_address\<close>, \<^verbatim>\<open>transaction_id\<close>.
\<close>

datatype cluster_frame = NoColumns | ClusterFrame "(string \<times> string \<times> pyval) list"

definition detect_complex_patterns :: "frame \<Rightarrow> cluster_frame logged" where
  "detect_complex_patterns transactions =
     (if length (rows transactions) > GRAPH_ANALYSIS_LIMIT then ([SkippingComplex], Inr NoColumns)
      else
        (case from_pandas_edgelist transactions of
           Inl e \<Rightarrow> ([], Inl e)
         | Inr G \<Rightarrow>
             (let clusters = connected_components G;
                  flagged_transactions =
                    concat (map (\<lambda>cluster. if length cluster > FREQUENT_TXN_LIMIT
                                            then subgraph_edges G cluster else []) clusters);
                  flagged_df =
                    map (\<lambda>(u, v, data). (u, v, dict_get data ''transaction_id''))
                      flagged_transactions
              in ([DetectedComplex (length flagged_df)], Inr (ClusterFrame flagged_df)))))"

subsection \<open>The flagged rows and calculate_risk_score\<close>

text \<open>
  \<^verbatim>\<open>pd.concat([flagged_threshold, flagged_high_risk, flagged_frequent, flagged_complex])\<close>
  stacks frames with different columns: a row of the result is a full transaction row, a
  row of the frequency detector, or a row of the graph detector. A cell of a column its
  frame does not have is missing (NaN). \<^verbatim>\<open>drop_duplicates()\<close> keeps the first of equal
  rows.
\<close>

datatype flagged_row = FullRow ctxn | FrequentRow string | ClusterRow string string pyval

definition cluster_rows :: "cluster_frame \<Rightarrow> flagged_row list" where
  "cluster_rows f =
     (case f of NoColumns \<Rightarrow> [] | ClusterFrame rs \<Rightarrow> map (\<lambda>(u, v, i). ClusterRow u v i) rs)"

definition drop_duplicates :: "'a list \<Rightarrow> 'a list" where
  "drop_duplicates xs = rev (remdups (rev xs))"

definition concat_flagged ::
  "ctxn list \<Rightarrow> ctxn list \<Rightarrow> string list \<Rightarrow> cluster_frame \<Rightarrow> flagged_row list" where
  "concat_flagged ft fh ff fc =
     drop_duplicates (map FullRow ft @ map FullRow fh @ map FrequentRow ff @ cluster_rows fc)"

fun row_value_usd :: "flagged_row \<Rightarrow> int option" where
  "row_value_usd (FullRow t) = Some (value_usd t)"
| "row_value_usd (FrequentRow a) = None"
| "row_value_usd (ClusterRow u v i) = None"

fun row_from_address :: "flagged_row \<Rightarrow> string option" where
  "row_from_address (FullRow t) = Some (from_address t)"
| "row_from_address (FrequentRow a) = Some a"
| "row_from_address (ClusterRow u v i) = Some u"

fun row_to_address :: "flagged_row \<Rightarrow> string option" where
  "row_to_address (FullRow t) = Some (to_address t)"
| "row_to_address (FrequentRow a) = None"
| "row_to_address (ClusterRow u v i) = Some v"

fun row_transaction_id :: "flagged_row \<Rightarrow> pyval" where
  "row_transaction_id (FullRow t) = Str (transaction_id t)"
| "row_transaction_id (FrequentRow a) = NoneVal"
| "row_transaction_id (ClusterRow u v i) = i"

definition above_threshold :: "int option \<Rightarrow> bool" where
  "above_threshold c = (case c of None \<Rightarrow> False | Some v \<Rightarrow> v > THRESHOLD_VALUE_USD)"

definition in_high_risk :: "string option \<Rightarrow> bool" where
  "in_high_risk c = (case c of None \<Rightarrow> False | Some a \<Rightarrow> a \<in> set HIGH_RISK_ADDRESSES)"

text \<open>
  The third test of the scorer is
  \<^verbatim>\<open>transaction['transaction_id'] in detect_complex_patterns(pd.DataFrame())['transaction_id'].values\<close>:
  the detector is called again, on a new frame without columns, and the column
  \<^verbatim>\<open>transaction_id\<close> of what it returns is read.
\<close>

definition calculate_risk_score :: "flagged_row \<Rightarrow> int logged" where
  "calculate_risk_score transaction =
     (let score = 0;
          score = (if above_threshold (row_value_usd transaction) then score + 30 else score);
          score = (if in_high_risk (row_from_address transaction) \<or>
                      in_high_risk (row_to_address transaction)
                   then score + 50 else score)
      in case detect_complex_patterns empty_frame of
           (ms, Inl e) \<Rightarrow> (ms, Inl e)
         | (ms, Inr NoColumns) \<Rightarrow> (ms, Inl KeyError)
         | (ms, Inr (ClusterFrame rs)) \<Rightarrow>
             (ms, Inr (min (if row_transaction_id transaction \<in> set (map (\<lambda>(u, v, i). i) rs)
                            then score + 20 else score) 100)))"

subsection \<open>log_alert and mark_transactions_processed\<close>

text \<open>
  Both wrap their statement in \<^verbatim>\<open>try: with conn: ... except Exception\<close>: a failing
  statement is rolled back and logged, and the function returns normally. \<open>n\<close> counts
  the alert inserts of the pass.
\<close>

definition log_alert :: "faults \<Rightarrow> nat \<Rightarrow> pyval \<Rightarrow> int \<Rightarrow> cworld \<Rightarrow> cworld" where
  "log_alert env n tid risk_score w =
     (let alert_type = (if risk_score \<ge> 70 then ''High Risk'' else ''Moderate Risk'') in
      if insert_fails env n then log_record (AlertFailed tid DatabaseError) w
      else log_record (AlertLogged tid alert_type risk_score)
             (w\<lparr>crypto_alerts := crypto_alerts w @ [(tid, alert_type, risk_score)]\<rparr>))"

definition mark_transactions_processed :: "faults \<Rightarrow> string list \<Rightarrow> cworld \<Rightarrow> cworld" where
  "mark_transactions_processed env transaction_ids w =
     (if update_fails env then log_record (MarkFailed DatabaseError) w
      else log_record (MarkedProcessed (map Str transaction_ids))
             (w\<lparr>crypto_transactions :=
                  map (\<lambda>r. if transaction_id r \<in> set transaction_ids
                            then r\<lparr>processed := True\<rparr> else r) (crypto_transactions w)\<rparr>))"

subsection \<open>analyze_transactions\<close>

text \<open>
  The loop \<^verbatim>\<open>for _, row in all_flagged.iterrows()\<close>: score the row, then log its alert.
  The scorer is a parameter, so that what the loop does when scoring raises or returns
  can be stated for any scorer; the program calls it with \<open>calculate_risk_score\<close>. An
  exception leaves the loop at once; the alerts logged before it stay (each insert is
  committed on its own).
\<close>

fun alert_loop ::
  "(flagged_row \<Rightarrow> int logged) \<Rightarrow> faults \<Rightarrow> nat \<Rightarrow> flagged_row list \<Rightarrow> cworld \<Rightarrow> exn option \<times> cworld" where
  "alert_loop score env n [] w = (None, w)"
| "alert_loop score env n (row # rest) w =
     (case score row of
        (ms, Inl e) \<Rightarrow> (Some e, log_records ms w)
      | (ms, Inr risk_score) \<Rightarrow>
          alert_loop score env (Suc n) rest
            (log_alert env n (row_transaction_id row) risk_score (log_records ms w)))"

text \<open>
  Lines 68 to 75: the loop, then \<^verbatim>\<open>mark_transactions_processed\<close> for every id of the
  batch; an exception of the loop goes to \<^verbatim>\<open>except Exception\<close>, which logs it.
\<close>

definition alert_and_mark ::
  "(flagged_row \<Rightarrow> int logged) \<Rightarrow> faults \<Rightarrow> ctxn list \<Rightarrow> flagged_row list \<Rightarrow> cworld \<Rightarrow> cworld" where
  "alert_and_mark score env transactions all_flagged w =
     (case alert_loop score env 0 all_flagged w of
        (Some e, w') \<Rightarrow> log_record (ErrorAnalyzing e) w'
      | (None, w') \<Rightarrow> mark_transactions_processed env (map transaction_id transactions) w')"

definition unprocessed :: "ctxn list \<Rightarrow> ctxn list" where
  "unprocessed tbl = filter (\<lambda>r. \<not> processed r) tbl"

definition analyze_transactions :: "faults \<Rightarrow> cworld \<Rightarrow> cworld" where
  "analyze_transactions env w =
     (if select_fails env then log_record (ErrorAnalyzing DatabaseError) w
      else
        (let transactions = unprocessed (crypto_transactions w) in
         if transactions = [] then log_record NoNewTransactions w
         else
           (let w1 = validate_transaction_data transactions w;
                ft = flagged_threshold transactions;
                fh = flagged_high_risk transactions
            in case detect_frequent_transactions transactions of
                 (ms, Inl e) \<Rightarrow> log_record (ErrorAnalyzing e) (log_records ms w1)
               | (ms, Inr ff) \<Rightarrow>
                   (let w2 = log_records ms w1
                    in case detect_complex_patterns (read_frame transactions) of
                         (ms', Inl e) \<Rightarrow> log_record (ErrorAnalyzing e) (log_records ms' w2)
                       | (ms', Inr fc) \<Rightarrow>
                           alert_and_mark calculate_risk_score env transactions
                             (concat_flagged ft fh ff fc) (log_records ms' w2)))))"

subsection \<open>archive_old_transactions\<close>

text \<open>
  \<open>now\<close> is \<^verbatim>\<open>datetime.datetime.now()\<close>, \<open>stored\<close> the storage format of the table. The
  two statements run inside \<^verbatim>\<open>with conn:\<close>, so a failure of either rolls both back
  before the handler logs it.
\<close>

definition archive_date :: "datetime \<Rightarrow> datetime" where
  "archive_date now = minus_days now ARCHIVE_AGE_DAYS"

definition archive_old_transactions ::
  "faults \<Rightarrow> (int \<Rightarrow> cell) \<Rightarrow> datetime \<Rightarrow> cworld \<Rightarrow> cworld" where
  "archive_old_transactions env stored now w =
     (if archive_insert_fails env \<or> archive_delete_fails env
      then log_record (ErrorArchiving DatabaseError) w
      else log_record (Archived ARCHIVE_AGE_DAYS)
             (w\<lparr>crypto_transactions_archive :=
                  crypto_transactions_archive w @
                    filter (\<lambda>r. before_bound stored (archive_date now) (transaction_date r))
                      (crypto_transactions w),
                crypto_transactions :=
                  filter (\<lambda>r. \<not> before_bound stored (archive_date now) (transaction_date r))
                    (crypto_transactions w)\<rparr>))"

section \<open>The fiat monitor\<close>

subsection \<open>Configuration (config.py)\<close>

definition HIGH_RISK_COUNTRIES :: "string list" where
  "HIGH_RISK_COUNTRIES = [''North Korea'', ''Iran'', ''Afghanistan'', ''Syria'', ''Sudan'',
     ''Yemen'', ''Venezuela'', ''Iraq'', ''Myanmar'', ''Libya'']"

definition TRANSACTION_FREQUENCY_LIMIT :: nat where
  "TRANSACTION_FREQUENCY_LIMIT = 10"

definition ROUND_AMOUNT_MULTIPLE :: int where
  "ROUND_AMOUNT_MULTIPLE = 1000"

definition ARCHIVE_AGE_DAYS_fiat :: int where
  "ARCHIVE_AGE_DAYS_fiat = 30"

subsection \<open>Tables\<close>

record ftxn =
  transaction_id_f :: int
  account_id :: int
  amount :: int
  transaction_date_f :: int
  country :: string
  transaction_type :: string
  payee_id :: int
  processed_f :: bool

text \<open>A row of \<^verbatim>\<open>alerts\<close>: transaction id and alert type.\<close>

type_synonym falert = "int \<times> string"

record fworld =
  transactions :: "ftxn list"
  alerts :: "falert list"
  transactions_archive :: "ftxn list"
  logging_f :: "int msg list"

definition log_record_f :: "int msg \<Rightarrow> fworld \<Rightarrow> fworld" where
  "log_record_f m w = w\<lparr>logging_f := logging_f w @ [m]\<rparr>"

subsection \<open>validate_transaction_data\<close>

definition validate_transaction_data_fiat :: "ftxn list \<Rightarrow> fworld \<Rightarrow> fworld" where
  "validate_transaction_data_fiat batch w =
     w\<lparr>logging_f := logging_f w @
          map (\<lambda>row. InvalidValue (amount row) (transaction_id_f row))
            (filter (\<lambda>row. amount row \<le> 0) batch)\<rparr>"

subsection \<open>generate_alerts\<close>

text \<open>
  One function per common table expression of the query. Every one of them reads
  \<^verbatim>\<open>FROM transactions\<close>, the table, so the functions take the table. SQL fixes no order of
  the result rows; the model lists them in table order, window results partition by
  partition.
\<close>

definition high_risk_countries :: "ftxn list \<Rightarrow> falert list" where
  "high_risk_countries tbl =
     map (\<lambda>r. (transaction_id_f r, ''High-Risk Country''))
       (filter (\<lambda>r. country r \<in> set HIGH_RISK_COUNTRIES) tbl)"

text \<open>
  \<^verbatim>\<open>LAG(transaction_date) OVER (PARTITION BY account_id ORDER BY transaction_date)\<close>: the
  rows of one account in date order, each with the date of the row before it, NULL for
  the first. \<^verbatim>\<open>strftime('%s', ...)\<close> is the timestamp in whole seconds; a row is kept when
  the difference to the previous one is below 60.
\<close>

definition partition_by_account :: "ftxn list \<Rightarrow> ftxn list list" where
  "partition_by_account tbl =
     map (\<lambda>a. sort_key transaction_date_f (filter (\<lambda>r. account_id r = a) tbl))
       (sort (remdups (map account_id tbl)))"

fun lag_transaction_date :: "int option \<Rightarrow> ftxn list \<Rightarrow> (ftxn \<times> int option) list" where
  "lag_transaction_date prev [] = []"
| "lag_transaction_date prev (r # rs) =
     (r, prev) # lag_transaction_date (Some (transaction_date_f r)) rs"

definition rapid :: "ftxn \<times> int option \<Rightarrow> bool" where
  "rapid rp =
     (case snd rp of
        None \<Rightarrow> False
      | Some prev_transaction_date \<Rightarrow> transaction_date_f (fst rp) - prev_transaction_date < 60)"

definition rapid_succession :: "ftxn list \<Rightarrow> falert list" where
  "rapid_succession tbl =
     map (\<lambda>rp. (transaction_id_f (fst rp), ''Rapid Succession''))
       (filter rapid (concat (map (lag_transaction_date None) (partition_by_account tbl))))"

definition round_amount :: "ftxn list \<Rightarrow> falert list" where
  "round_amount tbl =
     map (\<lambda>r. (transaction_id_f r, ''Round Amount''))
       (filter (\<lambda>r. amount r mod ROUND_AMOUNT_MULTIPLE = 0) tbl)"

text \<open>\<^verbatim>\<open>DATE(transaction_date)\<close>: the day a timestamp falls on.\<close>

definition date_of :: "ftxn \<Rightarrow> int" where
  "date_of r = transaction_date_f r div seconds_per_day"

definition transaction_count :: "ftxn list \<Rightarrow> ftxn \<Rightarrow> nat" where
  "transaction_count tbl r =
     length (filter (\<lambda>s. account_id s = account_id r \<and> date_of s = date_of r) tbl)"

definition high_frequency :: "ftxn list \<Rightarrow> falert list" where
  "high_frequency tbl =
     map (\<lambda>r. (transaction_id_f r, ''High Frequency''))
       (filter (\<lambda>r. transaction_count tbl r > TRANSACTION_FREQUENCY_LIMIT) tbl)"

definition payee_count :: "ftxn list \<Rightarrow> ftxn \<Rightarrow> nat" where
  "payee_count tbl r =
     length (filter (\<lambda>s. account_id s = account_id r \<and> payee_id s = payee_id r) tbl)"

definition new_payees :: "ftxn list \<Rightarrow> falert list" where
  "new_payees tbl =
     map (\<lambda>r. (transaction_id_f r, ''New Payee''))
       (filter (\<lambda>r. payee_count tbl r = 1) tbl)"

text \<open>
  \<^verbatim>\<open>generate_alerts(transactions)\<close> formats the query and runs it with
  \<^verbatim>\<open>pd.read_sql(query, conn)\<close>. Its parameter, the frame of unprocessed rows, is not used:
  the query runs on the connection.
\<close>

definition generate_alerts :: "faults \<Rightarrow> ftxn list \<Rightarrow> fworld \<Rightarrow> exn + falert list" where
  "generate_alerts env batch w =
     (if query_fails env then Inl DatabaseError
      else Inr (high_risk_countries (transactions w) @ rapid_succession (transactions w) @
                round_amount (transactions w) @ high_frequency (transactions w) @
                new_payees (transactions w)))"

subsection \<open>log_alert and mark_transactions_processed\<close>

definition log_alert_fiat :: "faults \<Rightarrow> nat \<Rightarrow> int \<Rightarrow> string \<Rightarrow> fworld \<Rightarrow> fworld" where
  "log_alert_fiat env n tid alert_type w =
     (if insert_fails env n then log_record_f (AlertFailed tid DatabaseError) w
      else log_record_f (AlertLoggedFiat tid alert_type)
             (w\<lparr>alerts := alerts w @ [(tid, alert_type)]\<rparr>))"

text \<open>
  The fiat \<^verbatim>\<open>mark_transactions_processed\<close> has no handler of its own: a failing update is
  rolled back by \<^verbatim>\<open>with conn:\<close> and the exception goes to the caller.
\<close>

definition mark_transactions_processed_fiat ::
  "faults \<Rightarrow> int list \<Rightarrow> fworld \<Rightarrow> exn option \<times> fworld" where
  "mark_transactions_processed_fiat env transaction_ids w =
     (if update_fails env then (Some DatabaseError, w)
      else (None,
            log_record_f (MarkedProcessed transaction_ids)
              (w\<lparr>transactions :=
                   map (\<lambda>r. if transaction_id_f r \<in> set transaction_ids
                             then r\<lparr>processed_f := True\<rparr> else r) (transactions w)\<rparr>)))"

subsection \<open>monitor_transactions\<close>

text \<open>The loop \<^verbatim>\<open>for index, row in alerts.iterrows(): log_alert(...)\<close>.\<close>

fun log_alerts :: "faults \<Rightarrow> nat \<Rightarrow> falert list \<Rightarrow> fworld \<Rightarrow> fworld" where
  "log_alerts env n [] w = w"
| "log_alerts env n (row # rest) w =
     log_alerts env (Suc n) rest (log_alert_fiat env n (fst row) (snd row) w)"

definition unprocessed_f :: "ftxn list \<Rightarrow> ftxn list" where
  "unprocessed_f tbl = filter (\<lambda>r. \<not> processed_f r) tbl"

definition monitor_transactions :: "faults \<Rightarrow> fworld \<Rightarrow> fworld" where
  "monitor_transactions env w =
     (if select_fails env then log_record_f (ErrorProcessing DatabaseError) w
      else
        (let batch = unprocessed_f (transactions w) in
         if batch = [] then log_record_f NoNewTransactions w
         else
           (let w1 = validate_transaction_data_fiat batch w
            in case generate_alerts env batch w1 of
                 Inl e \<Rightarrow> log_record_f (ErrorProcessing e) w1
               | Inr alert_rows \<Rightarrow>
                   (case mark_transactions_processed_fiat env (map transaction_id_f batch)
                           (log_alerts env 0 alert_rows w1) of
                      (Some e, w3) \<Rightarrow> log_record_f (ErrorProcessing e) w3
                    | (None, w3) \<Rightarrow> w3))))"

subsection \<open>archive_old_transactions\<close>

text \<open>
  The fiat archiver runs its two statements on the cursor and commits after the second;
  it has no \<^verbatim>\<open>with conn:\<close> and its handler does not roll back. When the \<^verbatim>\<open>DELETE\<close> raises,
  the rows the \<^verbatim>\<open>INSERT\<close> copied stay in the open transaction of the connection, which
  every later statement of the program reads and the next commit makes durable.
\<close>

definition archive_date_fiat :: "datetime \<Rightarrow> datetime" where
  "archive_date_fiat now = minus_days now ARCHIVE_AGE_DAYS_fiat"

definition archive_old_transactions_fiat ::
  "faults \<Rightarrow> (int \<Rightarrow> cell) \<Rightarrow> datetime \<Rightarrow> fworld \<Rightarrow> fworld" where
  "archive_old_transactions_fiat env stored now w =
     (if archive_insert_fails env then log_record_f (ErrorArchiving DatabaseError) w
      else
        (let w1 = w\<lparr>transactions_archive :=
                      transactions_archive w @
                        filter (\<lambda>r. before_bound stored (archive_date_fiat now) (transaction_date_f r))
                          (transactions w)\<rparr>
         in if archive_delete_fails env then log_record_f (ErrorArchiving DatabaseError) w1
            else log_record_f (Archived ARCHIVE_AGE_DAYS_fiat)
                   (w1\<lparr>transactions :=
                         filter (\<lambda>r. \<not> before_bound stored (archive_date_fiat now)
                                         (transaction_date_f r))
                           (transactions w)\<rparr>)))"

section \<open>Sample inputs\<close>

text \<open>Concrete rows and stores on which the theorems below are evaluated.\<close>

definition crypto_row :: "string \<Rightarrow> string \<Rightarrow> string \<Rightarrow> int \<Rightarrow> int \<Rightarrow> ctxn" where
  "crypto_row i a b v d =
     \<lparr>transaction_id = i, from_address = a, to_address = b, value_usd = v,
      transaction_fee = 0, transaction_date = d, blockchain = ''bitcoin'', processed = False\<rparr>"

definition crypto_store :: "ctxn list \<Rightarrow> cworld" where
  "crypto_store tbl =
     \<lparr>crypto_transactions = tbl, crypto_alerts = [], crypto_transactions_archive = [],
      logging = []\<rparr>"

text \<open>Five transfers that chain six addresses, the first one above the value threshold.\<close>

definition chain_batch :: "ctxn list" where
  "chain_batch =
     [crypto_row ''t1'' ''a'' ''b'' 20000 0, crypto_row ''t2'' ''b'' ''c'' 1 0,
      crypto_row ''t3'' ''c'' ''d'' 1 0, crypto_row ''t4'' ''d'' ''e'' 1 0,
      crypto_row ''t5'' ''e'' ''f'' 1 0]"

text \<open>Three transfers of one sender at \<open>t\<close>, \<open>t\<close> + 5 min and \<open>t\<close> + 20 min.\<close>

definition frequent_batch :: "ctxn list" where
  "frequent_batch =
     [crypto_row ''u1'' ''a'' ''b'' 1 0, crypto_row ''u2'' ''a'' ''c'' 1 300,
      crypto_row ''u3'' ''a'' ''d'' 1 1200]"

text \<open>A transfer above the threshold from a listed address.\<close>

definition risky_row :: ctxn where
  "risky_row = crypto_row ''r1'' ''1DkqkW9i9szEdSa7ZrM4q2eA6kWE2w2DSm'' ''z'' 20000 0"

definition plain_row :: ctxn where
  "plain_row = crypto_row ''p1'' ''x'' ''y'' 10000 0"

definition fiat_row :: "int \<Rightarrow> int \<Rightarrow> int \<Rightarrow> int \<Rightarrow> string \<Rightarrow> int \<Rightarrow> bool \<Rightarrow> ftxn" where
  "fiat_row i a v d c p reviewed =
     \<lparr>transaction_id_f = i, account_id = a, amount = v, transaction_date_f = d, country = c,
      transaction_type = ''transfer'', payee_id = p, processed_f = reviewed\<rparr>"

text \<open>
  A fiat store after an earlier pass: transaction 1 was alerted and marked processed,
  transaction 2 has arrived since.
\<close>

definition second_pass_store :: fworld where
  "second_pass_store =
     \<lparr>transactions = [fiat_row 1 7 250 0 ''Iran'' 9 True, fiat_row 2 8 40 5000 ''France'' 5 False],
      alerts = [(1, ''High-Risk Country''), (1, ''New Payee'')],
      transactions_archive = [],
      logging_f = []\<rparr>"



text \<open>
  Noon of day 100 (1970-04-11 12:00:00.250000), with one row of day 10 and one of day 90
  in each active table; the cutoff is noon of day 70.
\<close>

definition sample_now :: datetime where
  "sample_now = \<lparr>epoch_seconds = 100 * 86400 + 43200, microsecond = 250000\<rparr>"

definition delete_fails :: faults where
  "delete_fails = no_faults\<lparr>archive_delete_fails := True\<rparr>"

definition day :: "int \<Rightarrow> int" where
  "day n = n * seconds_per_day"

definition aged_crypto_store :: cworld where
  "aged_crypto_store =
     crypto_store [crypto_row ''old'' ''a'' ''b'' 1 (day 10), crypto_row ''new'' ''a'' ''b'' 1 (day 90)]"

definition aged_fiat_store :: fworld where
  "aged_fiat_store =
     \<lparr>transactions = [fiat_row 1 7 250 (day 10) ''France'' 9 True,
                      fiat_row 2 8 40 (day 90) ''France'' 5 False],
      alerts = [],
      transactions_archive = [],
      logging_f = []\<rparr>"

section \<open>The value threshold filter\<close>

text \<open>
  Claim C9. For every batch, the flagged set of the value threshold rule holds the id of
  a transaction of the batch if and only if the amount of that transaction is strictly
  greater than the configured threshold. Ids are the primary key of the table, so the
  ids of a batch are distinct.
\<close>

theorem value_threshold_exact:
  assumes "distinct (map transaction_id batch)" and "t \<in> set batch"
  shows "transaction_id t \<in> set (map transaction_id (flagged_threshold batch))
           \<longleftrightarrow> value_usd t > THRESHOLD_VALUE_USD"
proof
  assume "transaction_id t \<in> set (map transaction_id (flagged_threshold batch))"
  then obtain s where s: "s \<in> set batch" "value_usd s > THRESHOLD_VALUE_USD"
      "transaction_id s = transaction_id t"
    by (auto simp: flagged_threshold_def)
  from assms(1) have "inj_on transaction_id (set batch)"
    by (simp add: distinct_map)
  with s(1,3) assms(2) have "s = t"
    by (auto dest: inj_onD)
  with s(2) show "value_usd t > THRESHOLD_VALUE_USD" by simp
next
  assume "value_usd t > THRESHOLD_VALUE_USD"
  with assms(2) show "transaction_id t \<in> set (map transaction_id (flagged_threshold batch))"
    by (auto simp: flagged_threshold_def)
qed

text \<open>
  At a batch of two rows, one of 20000 and one of exactly 10000: the first id is flagged,
  the second is not.
\<close>

theorem value_threshold_exact_witness:
  "transaction_id risky_row \<in> set (map transaction_id (flagged_threshold [risky_row, plain_row])) \<and>
   transaction_id plain_row \<notin> set (map transaction_id (flagged_threshold [risky_row, plain_row]))"
  using value_threshold_exact [of "[risky_row, plain_row]" risky_row]
        value_threshold_exact [of "[risky_row, plain_row]" plain_row]
  by (simp add: risky_row_def plain_row_def crypto_row_def THRESHOLD_VALUE_USD_def)

section \<open>The archiver\<close>

text \<open>
  When both statements succeed, the rows for which the comparison of SQLite holds are
  moved and the others stay, in both monitors: a row of the active table is afterwards in
  exactly one of the two tables, no id is in both, and no id is lost. (The ids of the
  active table are distinct, and before the call no id is in both tables.)
\<close>

lemma archive_crypto:
  assumes nf: "\<not> archive_insert_fails env" "\<not> archive_delete_fails env"
      and d: "distinct (map transaction_id (crypto_transactions w))"
      and disj: "set (map transaction_id (crypto_transactions w)) \<inter>
                 set (map transaction_id (crypto_transactions_archive w)) = {}"
      and t: "t \<in> set (crypto_transactions w)"
  shows "(if before_bound stored (archive_date now) (transaction_date t)
          then t \<in> set (crypto_transactions_archive (archive_old_transactions env stored now w)) \<and>
               transaction_id t \<notin> set (map transaction_id (crypto_transactions (archive_old_transactions env stored now w)))
          else t \<in> set (crypto_transactions (archive_old_transactions env stored now w)) \<and>
               transaction_id t \<notin> set (map transaction_id (crypto_transactions_archive (archive_old_transactions env stored now w))))
       \<and> set (map transaction_id (crypto_transactions (archive_old_transactions env stored now w))) \<inter>
         set (map transaction_id (crypto_transactions_archive (archive_old_transactions env stored now w))) = {}
       \<and> set (map transaction_id (crypto_transactions (archive_old_transactions env stored now w))) \<union>
         set (map transaction_id (crypto_transactions_archive (archive_old_transactions env stored now w))) =
         set (map transaction_id (crypto_transactions w)) \<union>
         set (map transaction_id (crypto_transactions_archive w))"
proof -
  let ?old = "\<lambda>r. before_bound stored (archive_date now) (transaction_date r)"
  let ?w = "archive_old_transactions env stored now w"
  have act: "crypto_transactions ?w = filter (\<lambda>r. \<not> ?old r) (crypto_transactions w)"
    and arc: "crypto_transactions_archive ?w =
              crypto_transactions_archive w @ filter ?old (crypto_transactions w)"
    using nf by (simp_all add: archive_old_transactions_def log_record_def)
  have inj: "inj_on transaction_id (set (crypto_transactions w))"
    using d by (simp add: distinct_map)
  have same: "s = r" if "s \<in> set (crypto_transactions w)" "r \<in> set (crypto_transactions w)"
      "transaction_id s = transaction_id r" for s r
    using inj that by (auto dest: inj_onD)
  have p1: "?old t \<Longrightarrow> t \<in> set (crypto_transactions_archive ?w) \<and>
            transaction_id t \<notin> set (map transaction_id (crypto_transactions ?w))"
    using t same unfolding act arc by auto
  have p2: "\<not> ?old t \<Longrightarrow> t \<in> set (crypto_transactions ?w) \<and>
            transaction_id t \<notin> set (map transaction_id (crypto_transactions_archive ?w))"
    using t same disj unfolding act arc by auto
  have p3: "set (map transaction_id (crypto_transactions ?w)) \<inter>
            set (map transaction_id (crypto_transactions_archive ?w)) = {}"
    using same disj unfolding act arc by auto
  have p4: "set (map transaction_id (crypto_transactions ?w)) \<union>
            set (map transaction_id (crypto_transactions_archive ?w)) =
            set (map transaction_id (crypto_transactions w)) \<union>
            set (map transaction_id (crypto_transactions_archive w))"
    unfolding act arc by auto
  show ?thesis using p1 p2 p3 p4 by simp
qed

lemma archive_fiat:
  assumes nf: "\<not> archive_insert_fails env" "\<not> archive_delete_fails env"
      and d: "distinct (map transaction_id_f (transactions w))"
      and disj: "set (map transaction_id_f (transactions w)) \<inter>
                 set (map transaction_id_f (transactions_archive w)) = {}"
      and t: "t \<in> set (transactions w)"
  shows "(if before_bound stored (archive_date_fiat now) (transaction_date_f t)
          then t \<in> set (transactions_archive (archive_old_transactions_fiat env stored now w)) \<and>
               transaction_id_f t \<notin> set (map transaction_id_f (transactions (archive_old_transactions_fiat env stored now w)))
          else t \<in> set (transactions (archive_old_transactions_fiat env stored now w)) \<and>
               transaction_id_f t \<notin> set (map transaction_id_f (transactions_archive (archive_old_transactions_fiat env stored now w))))
       \<and> set (map transaction_id_f (transactions (archive_old_transactions_fiat env stored now w))) \<inter>
         set (map transaction_id_f (transactions_archive (archive_old_transactions_fiat env stored now w))) = {}
       \<and> set (map transaction_id_f (transactions (archive_old_transactions_fiat env stored now w))) \<union>
         set (map transaction_id_f (transactions_archive (archive_old_transactions_fiat env stored now w))) =
         set (map transaction_id_f (transactions w)) \<union>
         set (map transaction_id_f (transactions_archive w))"
proof -
  let ?old = "\<lambda>r. before_bound stored (archive_date_fiat now) (transaction_date_f r)"
  let ?w = "archive_old_transactions_fiat env stored now w"
  have act: "transactions ?w = filter (\<lambda>r. \<not> ?old r) (transactions w)"
    and arc: "transactions_archive ?w = transactions_archive w @ filter ?old (transactions w)"
    using nf by (simp_all add: archive_old_transactions_fiat_def log_record_f_def Let_def)
  have inj: "inj_on transaction_id_f (set (transactions w))"
    using d by (simp add: distinct_map)
  have same: "s = r" if "s \<in> set (transactions w)" "r \<in> set (transactions w)"
      "transaction_id_f s = transaction_id_f r" for s r
    using inj that by (auto dest: inj_onD)
  have p1: "?old t \<Longrightarrow> t \<in> set (transactions_archive ?w) \<and>
            transaction_id_f t \<notin> set (map transaction_id_f (transactions ?w))"
    using t same unfolding act arc by auto
  have p2: "\<not> ?old t \<Longrightarrow> t \<in> set (transactions ?w) \<and>
            transaction_id_f t \<notin> set (map transaction_id_f (transactions_archive ?w))"
    using t same disj unfolding act arc by auto
  have p3: "set (map transaction_id_f (transactions ?w)) \<inter>
            set (map transaction_id_f (transactions_archive ?w)) = {}"
    using same disj unfolding act arc by auto
  have p4: "set (map transaction_id_f (transactions ?w)) \<union>
            set (map transaction_id_f (transactions_archive ?w)) =
            set (map transaction_id_f (transactions w)) \<union>
            set (map transaction_id_f (transactions_archive w))"
    unfolding act arc by auto
  show ?thesis using p1 p2 p3 p4 by simp
qed

lemma before_bound_samples:
  "before_bound (iso_text '' '') (archive_date sample_now) (day 10) = True"
  "before_bound (iso_text '' '') (archive_date sample_now) (day 90) = False"
  "before_bound (iso_text '' '') (archive_date_fiat sample_now) (day 10) = True"
  "before_bound (iso_text '' '') (archive_date_fiat sample_now) (day 90) = False"
  by code_simp+

lemmas store_defs = aged_crypto_store_def aged_fiat_store_def crypto_store_def crypto_row_def
  fiat_row_def no_faults_def delete_fails_def log_record_def log_record_f_def

lemma archive_example:
  "map transaction_id (crypto_transactions_archive
      (archive_old_transactions no_faults (iso_text '' '') sample_now aged_crypto_store)) = [''old''] \<and>
   map transaction_id (crypto_transactions
      (archive_old_transactions no_faults (iso_text '' '') sample_now aged_crypto_store)) = [''new''] \<and>
   map transaction_id_f (transactions_archive
      (archive_old_transactions_fiat no_faults (iso_text '' '') sample_now aged_fiat_store)) = [1] \<and>
   map transaction_id_f (transactions
      (archive_old_transactions_fiat no_faults (iso_text '' '') sample_now aged_fiat_store)) = [2]"
  by (simp add: archive_old_transactions_def archive_old_transactions_fiat_def store_defs
      before_bound_samples)

text \<open>
  The comparison follows the instants only for a table that stores them as \<^verbatim>\<open>sqlite3\<close>
  writes them. An integer cell is before every bound, and an ISO text with the separator
  \<^verbatim>\<open>T\<close> on the day of the cutoff is not before it, whatever its time: of two rows at
  01:00 of day 70, eleven hours older than the cutoff, the one stored with a space is
  moved and the one stored with \<^verbatim>\<open>T\<close> is kept.
\<close>

lemma integer_cell_before_every_bound: "before_bound epoch_integer bound d"
  by (simp add: before_bound_def epoch_integer_def)

lemma separator_decides_on_the_cutoff_day:
  "adapt_datetime (archive_date sample_now) = ''1970-03-12 12:00:00.250000''"
  "iso_text '' '' (70 * 86400 + 3600) = TextCell ''1970-03-12 01:00:00''"
  "iso_text ''T'' (70 * 86400 + 3600) = TextCell ''1970-03-12T01:00:00''"
  "before_bound (iso_text '' '') (archive_date sample_now) (70 * 86400 + 3600)"
  "\<not> before_bound (iso_text ''T'') (archive_date sample_now) (70 * 86400 + 3600)"
  by code_simp+

text \<open>
  A failing statement. The crypto archiver leaves both tables as they were. The fiat
  archiver with a failing \<^verbatim>\<open>DELETE\<close> keeps what its \<^verbatim>\<open>INSERT\<close> copied: every row the
  comparison selects is then in both tables.
\<close>

lemma crypto_archiver_rolls_back:
  assumes "archive_insert_fails env \<or> archive_delete_fails env"
  shows "archive_old_transactions env stored now w = log_record (ErrorArchiving DatabaseError) w"
  using assms by (simp add: archive_old_transactions_def)

lemma fiat_archiver_keeps_the_copy:
  assumes "\<not> archive_insert_fails env" and "archive_delete_fails env"
      and "t \<in> set (transactions w)"
      and "before_bound stored (archive_date_fiat now) (transaction_date_f t)"
  shows "t \<in> set (transactions (archive_old_transactions_fiat env stored now w)) \<and>
         t \<in> set (transactions_archive (archive_old_transactions_fiat env stored now w))"
  using assms by (simp add: archive_old_transactions_fiat_def log_record_f_def Let_def)

text \<open>
  Claim C7. After one archiver invocation, every transaction strictly older than the
  retention cutoff is in archive storage and absent from active storage, every
  transaction at or inside the window is untouched, and no transaction is in neither or
  in both stores.

  In \<open>aged_fiat_store\<close> transaction 1 is of day 10 and the cutoff is noon of day 70. When
  the \<^verbatim>\<open>DELETE\<close> of the fiat archiver raises, the handler logs the error and transaction
  1 is in the active table and in the archive. The crypto archiver, given the same
  failure on the same rows, changes neither table.
\<close>

theorem fiat_archiver_leaves_rows_in_both_tables:
  "map transaction_id_f (transactions
      (archive_old_transactions_fiat delete_fails (iso_text '' '') sample_now aged_fiat_store)) = [1, 2] \<and>
   map transaction_id_f (transactions_archive
      (archive_old_transactions_fiat delete_fails (iso_text '' '') sample_now aged_fiat_store)) = [1] \<and>
   logging_f (archive_old_transactions_fiat delete_fails (iso_text '' '') sample_now aged_fiat_store) =
     [ErrorArchiving DatabaseError] \<and>
   archive_old_transactions delete_fails (iso_text '' '') sample_now aged_crypto_store =
     log_record (ErrorArchiving DatabaseError) aged_crypto_store"
  by (simp add: archive_old_transactions_def archive_old_transactions_fiat_def store_defs
      before_bound_samples)

section \<open>The frequency detector on a batch that is not empty\<close>

lemma frequent_lambda_raises: "isl (frequent_lambda x)"
  by (simp add: frequent_lambda_def crypto_columns_def Let_def)

lemma apply_groups_raises: "gs \<noteq> [] \<Longrightarrow> isl (apply_groups gs)"
proof (cases gs)
  case Nil
  then show "gs \<noteq> [] \<Longrightarrow> isl (apply_groups gs)" by simp
next
  case (Cons g gs')
  obtain k x where g: "g = (k, x)" by (cases g)
  from frequent_lambda_raises [of x] obtain e where "frequent_lambda x = Inl e"
    by (cases "frequent_lambda x") auto
  with Cons g show "isl (apply_groups gs)" by simp
qed

lemma detect_frequent_transactions_raises:
  assumes "batch \<noteq> []"
  shows "\<exists>e. detect_frequent_transactions batch = ([], Inl e)"
proof -
  from assms have "groupby_from_address batch \<noteq> []"
    by (cases batch) (auto simp: groupby_from_address_def)
  from apply_groups_raises [OF this] obtain e where
    "apply_groups (groupby_from_address batch) = Inl e"
    by (cases "apply_groups (groupby_from_address batch)") auto
  then show ?thesis by (simp add: detect_frequent_transactions_def)
qed

section \<open>A failed alert insert\<close>









section \<open>A scorer that raises\<close>

lemma alert_loop_append_raise:
  assumes "list_all (\<lambda>x. \<not> isl (snd (score x))) pre" and "snd (score r) = Inl e"
  shows "alert_loop score env n (pre @ r # post) w =
           (Some e, log_records (fst (score r)) (snd (alert_loop score env n pre w)))"
  using assms
proof (induction pre arbitrary: n w)
  case Nil
  then show ?case by (cases "score r") simp
next
  case (Cons a pre)
  then show ?case
    by (cases "score a"; cases "snd (score a)") auto
qed

lemma alert_loop_transactions:
  "crypto_transactions (snd (alert_loop score env n rs w)) = crypto_transactions w"
proof (induction rs arbitrary: n w)
  case Nil
  then show ?case by simp
next
  case (Cons a rs)
  then show ?case
    by (cases "score a"; cases "snd (score a)")
       (auto simp: log_records_def log_record_def log_alert_def Let_def)
qed

lemma calculate_risk_score_raises: "calculate_risk_score r = ([], Inl NetworkXError)"
  by (simp add: calculate_risk_score_def detect_complex_patterns_def empty_frame_def
      from_pandas_edgelist_def GRAPH_ANALYSIS_LIMIT_def Let_def)

text \<open>
  Claim C10. In the crypto monitor, if computing the risk score of a flagged transaction
  raises, the pass aborts at that point: no alert is recorded for that or any later
  flagged transaction and no transaction of the batch is marked, so the same batch is
  fetched again at the next interval.

  Here \<open>r\<close> is the first flagged row whose score raises, \<open>pre\<close> the flagged rows before
  it and \<open>post\<close> those after it. The table of transactions is unchanged, hence so is the
  set of unprocessed rows; the alerts table is what the loop made of \<open>pre\<close> alone; and the
  last log record is the error of the handler of \<open>analyze_transactions\<close>.
\<close>

theorem scoring_error_aborts_pass:
  fixes w :: cworld and score env batch pre r post
  defines "w' \<equiv> alert_and_mark score env batch (pre @ r # post) w"
  assumes "list_all (\<lambda>x. \<not> isl (snd (score x))) pre" and "snd (score r) = Inl e"
  shows "crypto_transactions w' = crypto_transactions w \<and>
         unprocessed (crypto_transactions w') = unprocessed (crypto_transactions w) \<and>
         crypto_alerts w' = crypto_alerts (snd (alert_loop score env 0 pre w)) \<and>
         last (logging w') = ErrorAnalyzing e"
  unfolding w'_def alert_and_mark_def alert_loop_append_raise [OF assms(2,3)]
  by (simp add: log_record_def log_records_def alert_loop_transactions)

text \<open>
  With the scorer of the program, which raises on the first flagged row: nothing is
  recorded, nothing is marked, the error is logged.
\<close>

theorem scoring_error_aborts_pass_witness:
  "alert_and_mark calculate_risk_score no_faults [risky_row, plain_row]
     [FullRow risky_row, FullRow plain_row] (crypto_store [risky_row, plain_row]) =
   (crypto_store [risky_row, plain_row])\<lparr>logging := [ErrorAnalyzing NetworkXError]\<rparr>"
proof -
  have h1: "list_all (\<lambda>x. \<not> isl (snd (calculate_risk_score x))) []"
    by simp
  have h2: "snd (calculate_risk_score (FullRow risky_row)) = Inl NetworkXError"
    by (simp add: calculate_risk_score_raises)
  have e: "alert_and_mark calculate_risk_score no_faults [risky_row, plain_row]
     [FullRow risky_row, FullRow plain_row] (crypto_store [risky_row, plain_row]) =
   (crypto_store [risky_row, plain_row])\<lparr>logging := [ErrorAnalyzing NetworkXError]\<rparr>"
    by code_simp
  note scoring_error_aborts_pass [OF h1 h2, of no_faults "[risky_row, plain_row]"
      "[FullRow plain_row]" "crypto_store [risky_row, plain_row]"]
  then show ?thesis
    by (simp add: e)
qed

section \<open>Where the programs depart from the specification\<close>

subsection \<open>The fiat query reads the whole table\<close>

lemma pass_over_processed_table:
  assumes "unprocessed_f (transactions w) = []"
  shows "alerts (monitor_transactions env w) = alerts w \<and>
         transactions (monitor_transactions env w) = transactions w"
  using assms by (simp add: monitor_transactions_def log_record_f_def)

text \<open>
  Claim C1. A transaction whose processed flag is true is excluded from all later
  detection passes, so that no pass flags it again from the same cause.

  The fiat pass does flag it again as soon as the table holds one unprocessed row: in
  \<open>second_pass_store\<close> transaction 1 is processed and already has its two alerts, and the
  pass that handles the new transaction 2 inserts both alerts of transaction 1 once more.
  (A pass over a table with no unprocessed row inserts nothing: \<open>pass_over_processed_table\<close>.)
\<close>

theorem processed_transaction_alerted_again:
  "map processed_f (transactions second_pass_store) = [True, False] \<and>
   alerts second_pass_store = [(1, ''High-Risk Country''), (1, ''New Payee'')] \<and>
   alerts (monitor_transactions no_faults second_pass_store) =
     [(1, ''High-Risk Country''), (1, ''New Payee''),
      (1, ''High-Risk Country''), (1, ''New Payee''), (2, ''New Payee'')]"
  by code_simp

subsection \<open>The scorer calls the graph detector on an empty frame\<close>

text \<open>
  Claim C2. The risk score of a flagged transaction is computed from the rules already
  matched in the current pass; the scorer never calls a detector again on an empty or
  unrelated dataset, so the cluster contribution reflects the graph detector's output for
  the current batch.

  The scorer does call \<open>detect_complex_patterns\<close> again, on \<open>empty_frame\<close>. That call
  raises, and so does the scorer, for every row \<open>r\<close>: the first transfer of \<open>chain_batch\<close>
  is in the cluster the detector finds in that batch, and its score is the exception all
  the same.
\<close>

theorem scorer_probes_empty_frame:
  "detect_complex_patterns empty_frame = ([], Inl NetworkXError) \<and>
   calculate_risk_score r = ([], Inl NetworkXError) \<and>
   ClusterRow ''a'' ''b'' NoneVal \<in>
     set (cluster_rows (projr (snd (detect_complex_patterns (read_frame chain_batch))))) \<and>
   calculate_risk_score (FullRow (hd chain_batch)) = ([], Inl NetworkXError)"
proof -
  have "detect_complex_patterns empty_frame = ([], Inl NetworkXError)"
    by (simp add: detect_complex_patterns_def empty_frame_def from_pandas_edgelist_def
        GRAPH_ANALYSIS_LIMIT_def)
  moreover have "ClusterRow ''a'' ''b'' NoneVal \<in>
     set (cluster_rows (projr (snd (detect_complex_patterns (read_frame chain_batch)))))"
    by code_simp
  ultimately show ?thesis
    by (simp add: calculate_risk_score_raises)
qed

subsection \<open>The graph detector returns no transaction id\<close>

text \<open>
  Claim C3. A batch over the size bound gives an empty flagged set; otherwise the flagged
  set is exactly the transaction ids of the edges of every connected component with more
  nodes than the cluster size limit.

  The size bound holds (\<open>skip_when_over_the_bound\<close>). The ids do not: the edges carry
  the attribute \<^verbatim>\<open>value_usd\<close> only, so \<^verbatim>\<open>x.get('transaction_id')\<close> is None on every row.
  For the five transfers of \<open>chain_batch\<close>, one component of six addresses, the claim
  gives the ids t1 to t5; the detector returns five rows without an id.
\<close>

theorem cluster_rows_have_no_transaction_id:
  "detect_complex_patterns (read_frame chain_batch) =
     ([DetectedComplex 5],
      Inr (ClusterFrame
        [(''a'', ''b'', NoneVal), (''b'', ''c'', NoneVal), (''c'', ''d'', NoneVal),
         (''d'', ''e'', NoneVal), (''e'', ''f'', NoneVal)]))"
  by code_simp

lemma skip_when_over_the_bound:
  assumes "length (rows df) > GRAPH_ANALYSIS_LIMIT"
  shows "detect_complex_patterns df = ([SkippingComplex], Inr NoColumns) \<and>
         cluster_rows NoColumns = [] \<and> level_of (SkippingComplex :: pyval msg) = INFO"
  using assms by (simp add: detect_complex_patterns_def cluster_rows_def)

subsection \<open>The frequency detector raises\<close>

text \<open>
  Claim C4. The frequency rule flags exactly the transactions whose gap to the previous
  transaction of the same sender is below the configured duration; for three transactions
  of one sender at t, t + 5 min and t + 20 min and a gap of 10 minutes, only the second
  is flagged.

  On those three transactions \<open>detect_frequent_transactions\<close> raises, and on a single
  transaction too; it raises on every batch that is not empty
  (\<open>detect_frequent_transactions_raises\<close>).
\<close>

theorem frequency_detector_raises:
  "detect_frequent_transactions frequent_batch = ([], Inl TypeError) \<and>
   detect_frequent_transactions [plain_row] = ([], Inl AttributeError)"
  by code_simp

text \<open>
  The fiat rule returns. Its gap is the constant 60 seconds of the query: of three
  transactions of one account at 0 s, 30 s and 120 s it flags the second, and of the three
  at 0, 5 and 20 minutes none.
\<close>

lemma rapid_succession_examples:
  "rapid_succession [fiat_row 1 7 5 0 ''France'' 9 False, fiat_row 2 7 5 30 ''France'' 9 False,
                     fiat_row 3 7 5 120 ''France'' 9 False] = [(2, ''Rapid Succession'')] \<and>
   rapid_succession [fiat_row 1 7 5 0 ''France'' 9 False, fiat_row 2 7 5 300 ''France'' 9 False,
                     fiat_row 3 7 5 1200 ''France'' 9 False] = []"
  by code_simp

subsection \<open>The crypto pass marks nothing\<close>

lemma analyze_transactions_changes_no_table:
  "crypto_transactions (analyze_transactions env w) = crypto_transactions w \<and>
   crypto_alerts (analyze_transactions env w) = crypto_alerts w"
proof (cases "select_fails env \<or> unprocessed (crypto_transactions w) = []")
  case True
  then show ?thesis
    by (auto simp: analyze_transactions_def log_record_def Let_def)
next
  case False
  then have ne: "unprocessed (crypto_transactions w) \<noteq> []" and sf: "\<not> select_fails env"
    by simp_all
  from detect_frequent_transactions_raises [OF ne] obtain e where
    "detect_frequent_transactions (unprocessed (crypto_transactions w)) = ([], Inl e)" ..
  with ne sf show ?thesis
    by (simp add: analyze_transactions_def Let_def log_record_def log_records_def
        validate_transaction_data_def)
qed

text \<open>
  Claim C5. Every pass over a batch that is not empty marks the transactions of the batch
  exactly once, after alerting, flagged or not.

  No crypto pass changes the table of transactions, whatever the store \<open>w\<close> and the
  faults \<open>env\<close>. For a store of one unprocessed transaction the pass ends in its handler
  with the exception of the frequency detector; and the loop that follows the detectors,
  run on that transaction, ends there with the exception of the scorer.
\<close>

theorem crypto_pass_marks_nothing:
  "crypto_transactions (analyze_transactions env w) = crypto_transactions w \<and>
   analyze_transactions no_faults (crypto_store [risky_row]) =
     (crypto_store [risky_row])\<lparr>logging := [ErrorAnalyzing AttributeError]\<rparr> \<and>
   alert_and_mark calculate_risk_score no_faults [risky_row] [FullRow risky_row]
       (crypto_store [risky_row]) =
     (crypto_store [risky_row])\<lparr>logging := [ErrorAnalyzing NetworkXError]\<rparr>"
proof -
  have "analyze_transactions no_faults (crypto_store [risky_row]) =
     (crypto_store [risky_row])\<lparr>logging := [ErrorAnalyzing AttributeError]\<rparr>"
    by code_simp
  moreover have "alert_and_mark calculate_risk_score no_faults [risky_row] [FullRow risky_row]
       (crypto_store [risky_row]) =
     (crypto_store [risky_row])\<lparr>logging := [ErrorAnalyzing NetworkXError]\<rparr>"
    by code_simp
  ultimately show ?thesis
    using analyze_transactions_changes_no_table [of env w] by simp
qed

subsection \<open>No risk score is returned\<close>

text \<open>
  Claim C6. The risk score is the sum of the weights of the matched rules, capped at 100:
  a transaction matching the value threshold (+30) and the risk list (+50) scores 80.

  \<open>risky_row\<close> matches both rules. Its score is not 80: the scorer raises after the two
  additions, when it calls the graph detector on the empty frame.
\<close>

theorem risk_score_not_returned:
  "above_threshold (row_value_usd (FullRow risky_row)) \<and>
   in_high_risk (row_from_address (FullRow risky_row)) \<and>
   calculate_risk_score (FullRow risky_row) = ([], Inl NetworkXError)"
proof -
  have "above_threshold (row_value_usd (FullRow risky_row))"
    by code_simp
  moreover have "in_high_risk (row_from_address (FullRow risky_row))"
    by code_simp
  ultimately show ?thesis
    by (simp add: calculate_risk_score_raises)
qed

end
